theory Spec2Isabelle
  imports Main "HOL-Library.Word" "HOL-Library.Sublist"
begin

section \<open>Package saia: a client for the SAIA pickup-request web service\<close>

text \<open>
  The package is one file, \<^verbatim>\<open>saia.go\<close>: two package-level variables (\<^verbatim>\<open>testMode\<close>,
  \<^verbatim>\<open>timeout\<close>), two setters and the method \<^verbatim>\<open>RequestPickup\<close>. The embedding keeps the
  package variables and everything the method does to the outside (the text it hands to
  the logger, the HTTP POST it issues) in one record that is passed through every call.
  The libraries the package calls are not part of it. Four of their functions are
  parameters of the model, collected in the record \<open>Env\<close>: the HTTP exchange, the XML
  decoder that reads the response, the escaping of character data and the printing of a
  \<^verbatim>\<open>float64\<close>. The rest is written out after the libraries' documentation: the text of
  an error made by \<^verbatim>\<open>errors.New\<close> and \<^verbatim>\<open>errors.Wrap\<close>, and the elements that
  \<^verbatim>\<open>xml.Marshal\<close> derives from the struct tags of \<^verbatim>\<open>Request\<close>.
\<close>

subsection \<open>Machine types\<close>

text \<open>
  \<^verbatim>\<open>time.Duration\<close> is an \<^verbatim>\<open>int64\<close> count of nanoseconds; its multiplication wraps.
  A \<^verbatim>\<open>float64\<close> is carried as its bit pattern, and \<^verbatim>\<open>uint\<close> as a 64-bit word.
\<close>

type_synonym Duration = "64 word"
type_synonym float64 = "64 word"
type_synonym uint = "64 word"

definition Second :: Duration where
  "Second = 1000000000"

subsection \<open>Errors\<close>

text \<open>
  An error is either one produced by a library call (known by its text only), one made by
  \<^verbatim>\<open>errors.New\<close>, or one made by \<^verbatim>\<open>errors.Wrap(cause, message)\<close> around a non-nil cause.
  \<open>Error\<close> is the method \<^verbatim>\<open>Error()\<close>: a wrapped error prints its message, a colon and a
  space, then its cause.
\<close>

datatype error =
    Library string
  | errors_New string
  | errors_Wrap error string

fun Error :: "error \<Rightarrow> string" where
  "Error (Library s) = s"
| "Error (errors_New s) = s"
| "Error (errors_Wrap cause message) = message @ '': '' @ Error cause"

subsection \<open>The structs of the package\<close>

record xml_Name =
  Space :: string
  Local :: string

record PickupTerminal =
  ID :: string
  Name :: string
  Manager :: string
  Address1 :: string
  Address2 :: string
  City :: string
  State :: string
  Zipcode :: string
  CityDispatchPhone :: string
  CustomerServicePhone :: string
  TollFreePhone :: string
  Fax :: string

record ResponseData =
  Code :: string
  Element :: string
  Fault :: string
  Message :: string
  TestMode :: string
  PickupNumber :: string
  TotalPieces :: uint
  TotalWeight :: float64
  NextBusinessDay :: string
  PickupTerminal :: PickupTerminal

record Item =
  DestinationZipcode :: string
  Pieces :: uint
  Package :: string
  Weight :: float64
  DestinationCountry :: string
  Freezable :: string

record Request =
  XMLName :: xml_Name
  Item :: Item
  UserID :: string
  Password :: string
  TestMode :: string
  AccountNumber :: string
  CompanyName :: string
  Street :: string
  City :: string
  State :: string
  Zipcode :: string
  ContactName :: string
  ContactPhone :: string
  PickupDate :: string
  ReadyTime :: string
  CloseTime :: string
  SpecialInstructions :: string

text \<open>The zero values of the response types: what a named result holds before it is assigned.\<close>

definition PickupTerminal_zero :: PickupTerminal where
  "PickupTerminal_zero =
     \<lparr>ID = [], Name = [], Manager = [], Address1 = [], Address2 = [],
      PickupTerminal.City = [], PickupTerminal.State = [], PickupTerminal.Zipcode = [],
      CityDispatchPhone = [], CustomerServicePhone = [], TollFreePhone = [], Fax = []\<rparr>"

definition ResponseData_zero :: ResponseData where
  "ResponseData_zero =
     \<lparr>Code = [], Element = [], Fault = [], Message = [], ResponseData.TestMode = [],
      PickupNumber = [], TotalPieces = 0, TotalWeight = 0, NextBusinessDay = [],
      PickupTerminal = PickupTerminal_zero\<rparr>"

subsection \<open>The outside of the package\<close>

text \<open>
  A POST as \<^verbatim>\<open>http.Client{Timeout: t}.Post(url, contentType, body)\<close> issues it, and the
  response it returns: the status code and what \<^verbatim>\<open>ioutil.ReadAll\<close> yields on the body
  (the bytes read and the read error, if any).
\<close>

record PostCall =
  url :: string
  contentType :: string
  body :: string
  Timeout :: Duration

record Response =
  StatusCode :: int
  Body :: "string \<times> error option"

text \<open>
  The library functions the package calls. \<open>xml_Unmarshal env data v\<close> is
  \<^verbatim>\<open>xml.Unmarshal(data, &v)\<close>: the value left in \<^verbatim>\<open>v\<close> and the error.
\<close>

record Env =
  http_Post :: "PostCall \<Rightarrow> error + Response"
  xml_Unmarshal :: "string \<Rightarrow> ResponseData \<Rightarrow> ResponseData \<times> error option"
  EscapeText :: "string \<Rightarrow> string"
  FormatFloat :: "float64 \<Rightarrow> string"

text \<open>
  What a call leaves behind, in order: the arguments of \<^verbatim>\<open>log.Print\<close> and
  \<^verbatim>\<open>log.Println\<close>, the value given to \<^verbatim>\<open>log.Printf("%+v", ...)\<close>, and each POST.
\<close>

datatype event =
    LogPrint string
  | LogResponse ResponseData
  | HttpPost PostCall

record World =
  testMode :: string
  timeout :: Duration
  events :: "event list"

definition saiaURL :: string where
  "saiaURL = ''http://www.saiasecure.com/webservice/pickup/xml.aspx''"

text \<open>The package variables as initialised, with nothing done yet.\<close>

definition initial :: World where
  "initial = \<lparr>testMode = ''Y'', timeout = 10 * Second, events = []\<rparr>"

fun posted :: "event list \<Rightarrow> PostCall list" where
  "posted [] = []"
| "posted (HttpPost c # es) = c # posted es"
| "posted (e # es) = posted es"

subsection \<open>Configuration\<close>

definition SetProductionMode :: "bool \<Rightarrow> World \<Rightarrow> World" where
  "SetProductionMode yes w = (if yes then w\<lparr>testMode := ''N''\<rparr> else w)"

definition SetTimeout :: "Duration \<Rightarrow> World \<Rightarrow> World" where
  "SetTimeout seconds w = w\<lparr>timeout := seconds * Second\<rparr>"

subsection \<open>Serialisation of a request\<close>

text \<open>
  \<^verbatim>\<open>xml.Marshal\<close> on a \<^verbatim>\<open>Request\<close>, following the struct tags: the element is named by the
  tag of \<^verbatim>\<open>XMLName\<close> (\<^verbatim>\<open>Create\<close>), field \<^verbatim>\<open>Item\<close> is the element \<^verbatim>\<open>DetailItem\<close> inside the
  parent \<^verbatim>\<open>Details\<close>, every other field is an element named as the field, in the order of
  declaration. Character data goes through \<open>EscapeText\<close>; an unsigned integer is printed
  in base 10. The struct holds strings, an unsigned integer and a float only, for which
  \<^verbatim>\<open>xml.Marshal\<close> has no error: the model always returns a document, and the branch of
  \<open>RequestPickup\<close> for a failed serialisation is kept as the source has it.
\<close>

datatype xml_node =
    Elem string "xml_node list"
  | CharData string

fun render :: "Env \<Rightarrow> xml_node \<Rightarrow> string" where
  "render env (CharData s) = EscapeText env s"
| "render env (Elem name children) =
     ''<'' @ name @ ''>'' @ concat (map (render env) children) @ ''</'' @ name @ ''>''"

fun FormatUint :: "nat \<Rightarrow> string" where
  "FormatUint n =
     (if n < 10 then [''0123456789'' ! n]
      else FormatUint (n div 10) @ [''0123456789'' ! (n mod 10)])"

declare FormatUint.simps [simp del]

definition field :: "string \<Rightarrow> string \<Rightarrow> xml_node" where
  "field name v = Elem name [CharData v]"

definition Item_fields :: "Env \<Rightarrow> Item \<Rightarrow> xml_node list" where
  "Item_fields env i =
     [field ''DestinationZipcode'' (DestinationZipcode i),
      field ''Pieces'' (FormatUint (unat (Pieces i))),
      field ''Package'' (Package i),
      field ''Weight'' (FormatFloat env (Weight i)),
      field ''DestinationCountry'' (DestinationCountry i),
      field ''Freezable'' (Freezable i)]"

definition Request_node :: "Env \<Rightarrow> Request \<Rightarrow> xml_node" where
  "Request_node env p =
     Elem ''Create''
      [Elem ''Details'' [Elem ''DetailItem'' (Item_fields env (Item p))],
       field ''UserID'' (UserID p),
       field ''Password'' (Password p),
       field ''TestMode'' (Request.TestMode p),
       field ''AccountNumber'' (AccountNumber p),
       field ''CompanyName'' (CompanyName p),
       field ''Street'' (Street p),
       field ''City'' (Request.City p),
       field ''State'' (Request.State p),
       field ''Zipcode'' (Request.Zipcode p),
       field ''ContactName'' (ContactName p),
       field ''ContactPhone'' (ContactPhone p),
       field ''PickupDate'' (PickupDate p),
       field ''ReadyTime'' (ReadyTime p),
       field ''CloseTime'' (CloseTime p),
       field ''SpecialInstructions'' (SpecialInstructions p)]"

definition xml_Marshal :: "Env \<Rightarrow> Request \<Rightarrow> error + string" where
  "xml_Marshal env p = Inr (render env (Request_node env p))"

definition xml_Header :: string where
  \<open>xml_Header = ''<?xml version="1.0" encoding="UTF-8"?>'' @ [CHR 0x0A]\<close>

subsection \<open>RequestPickup\<close>

text \<open>
  The method has a pointer receiver and two named results. The model returns both results,
  the receiver as the call leaves it, and the world after the call.
\<close>

record Return =
  responseData :: ResponseData
  err :: "error option"
  receiver :: Request
  world :: World

definition emit :: "event list \<Rightarrow> World \<Rightarrow> World" where
  "emit es w = w\<lparr>events := events w @ es\<rparr>"

definition RequestPickup :: "Env \<Rightarrow> Request \<Rightarrow> World \<Rightarrow> Return" where
  "RequestPickup env p0 w0 =
    (let p = p0\<lparr>Request.TestMode := testMode w0\<rparr> in
     case xml_Marshal env p of
       Inl e \<Rightarrow>
         \<lparr>responseData = ResponseData_zero,
          err = Some (errors_Wrap e ''saia.RequestPickup - could not marshal xml''),
          receiver = p, world = w0\<rparr>
     | Inr xmlBytes \<Rightarrow>
        (let xmlString = xml_Header @ xmlBytes;
             call = \<lparr>url = saiaURL, contentType = ''text/xml'', body = xmlString,
                     Timeout = timeout w0\<rparr>;
             w = emit [LogPrint xmlString, HttpPost call] w0 in
         case http_Post env call of
           Inl e \<Rightarrow>
             \<lparr>responseData = ResponseData_zero,
              err = Some (errors_Wrap e ''saia.RequestPickup - could not make post request''),
              receiver = p, world = w\<rparr>
         | Inr res \<Rightarrow>
            (case Body res of
               (data, Some e) \<Rightarrow>
                 \<lparr>responseData = ResponseData_zero,
                  err = Some (errors_Wrap e ''saia.RequestPickup - could not read response 1''),
                  receiver = p, world = w\<rparr>
             | (data, None) \<Rightarrow>
                (case xml_Unmarshal env data ResponseData_zero of
                   (r, Some e) \<Rightarrow>
                     \<lparr>responseData = r,
                      err = Some (errors_Wrap e ''saia.RequestPickup - could not read response 2''),
                      receiver = p, world = w\<rparr>
                 | (r, None) \<Rightarrow>
                     if Code r \<noteq> [] \<or> PickupNumber r = [] then
                       \<lparr>responseData = r,
                        err = Some (errors_Wrap
                                (errors_New ''saia.RequestPickup - pickup request failed'')
                                (Message r)),
                        receiver = p,
                        world = emit [LogPrint ''saia.RequestPickup - pickup request failed'',
                                      LogResponse r] w\<rparr>
                     else
                       \<lparr>responseData = r, err = None, receiver = p,
                        world = emit [LogResponse r] w\<rparr>))))"

text \<open>The POST that a call of \<open>RequestPickup\<close> on \<open>p\<close> issues in the world \<open>w\<close>.\<close>

definition pickup_post :: "Env \<Rightarrow> Request \<Rightarrow> World \<Rightarrow> PostCall" where
  "pickup_post env p w =
     \<lparr>url = saiaURL, contentType = ''text/xml'',
      body = xml_Header @ render env (Request_node env (p\<lparr>Request.TestMode := testMode w\<rparr>)),
      Timeout = timeout w\<rparr>"

subsection \<open>Reading a request back\<close>

text \<open>
  The package never decodes a \<open>Request\<close>; reading one back is the work of the decoder of
  \<^verbatim>\<open>encoding/xml\<close>, which is outside the repository. It is written here after the
  library's documentation, for the documents that \<^verbatim>\<open>xml.Marshal\<close> writes for a
  \<open>Request\<close>: an optional XML declaration, the element \<^verbatim>\<open>Create\<close>, in it \<^verbatim>\<open>Details\<close> with
  one \<^verbatim>\<open>DetailItem\<close>, then the other fields, each element holding character data only, in
  the order of declaration. Any other input is an error (\<open>None\<close>). Character data runs to
  the next opening angle bracket and is unescaped; \<^verbatim>\<open>Pieces\<close> is read as a base-10
  \<^verbatim>\<open>uint\<close>, \<^verbatim>\<open>Weight\<close> by the library's float parser, and \<open>XMLName\<close> records the name of
  the element that was read. Unescaping and the float parser are parameters, as their
  counterparts in \<open>Env\<close>.
\<close>

record Decoder =
  UnescapeText :: "string \<Rightarrow> string"
  ParseFloat :: "string \<Rightarrow> float64 option"

fun strip_prefix :: "string \<Rightarrow> string \<Rightarrow> string option" where
  "strip_prefix [] s = Some s"
| "strip_prefix (c # cs) [] = None"
| "strip_prefix (c # cs) (d # ds) = (if c = d then strip_prefix cs ds else None)"

definition element :: "Decoder \<Rightarrow> string \<Rightarrow> string \<Rightarrow> (string \<times> string) option" where
  "element dec name s =
     (case strip_prefix (''<'' @ name @ ''>'') s of
        None \<Rightarrow> None
      | Some r \<Rightarrow>
         (case strip_prefix (''</'' @ name @ ''>'') (dropWhile (\<lambda>c. c \<noteq> CHR ''<'') r) of
            None \<Rightarrow> None
          | Some r' \<Rightarrow> Some (UnescapeText dec (takeWhile (\<lambda>c. c \<noteq> CHR ''<'') r), r')))"

fun elements :: "Decoder \<Rightarrow> string list \<Rightarrow> string \<Rightarrow> (string list \<times> string) option" where
  "elements dec [] s = Some ([], s)"
| "elements dec (name # names) s =
     (case element dec name s of
        None \<Rightarrow> None
      | Some (v, r) \<Rightarrow>
         (case elements dec names r of
            None \<Rightarrow> None
          | Some (vs, r') \<Rightarrow> Some (v # vs, r')))"

definition ParseUint :: "string \<Rightarrow> uint option" where
  "ParseUint s =
     (if s = [] \<or> \<not> list_all (\<lambda>c. c \<in> set ''0123456789'') s then None
      else let n = foldl (\<lambda>a c. 10 * a + (of_char c - 48)) (0::int) s
           in if n < 2 ^ 64 then Some (word_of_int n) else None)"

definition Item_names :: "string list" where
  "Item_names = [''DestinationZipcode'', ''Pieces'', ''Package'', ''Weight'',
     ''DestinationCountry'', ''Freezable'']"

definition Request_names :: "string list" where
  "Request_names = [''UserID'', ''Password'', ''TestMode'', ''AccountNumber'', ''CompanyName'',
     ''Street'', ''City'', ''State'', ''Zipcode'', ''ContactName'', ''ContactPhone'',
     ''PickupDate'', ''ReadyTime'', ''CloseTime'', ''SpecialInstructions'']"

definition Item_of :: "Decoder \<Rightarrow> string list \<Rightarrow> Item option" where
  "Item_of dec vs =
     (if length vs \<noteq> 6 then None
      else case ParseUint (vs ! 1) of
             None \<Rightarrow> None
           | Some n \<Rightarrow>
              (case ParseFloat dec (vs ! 3) of
                 None \<Rightarrow> None
               | Some x \<Rightarrow>
                   Some \<lparr>DestinationZipcode = vs ! 0, Pieces = n, Package = vs ! 2, Weight = x,
                         DestinationCountry = vs ! 4, Freezable = vs ! 5\<rparr>))"

definition Request_of :: "Item \<Rightarrow> string list \<Rightarrow> Request option" where
  "Request_of i vs =
     (if length vs \<noteq> 15 then None
      else Some \<lparr>XMLName = \<lparr>Space = [], Local = ''Create''\<rparr>, Item = i,
                  UserID = vs ! 0, Password = vs ! 1, Request.TestMode = vs ! 2,
                  AccountNumber = vs ! 3, CompanyName = vs ! 4, Street = vs ! 5,
                  Request.City = vs ! 6, Request.State = vs ! 7, Request.Zipcode = vs ! 8,
                  ContactName = vs ! 9, ContactPhone = vs ! 10, PickupDate = vs ! 11,
                  ReadyTime = vs ! 12, CloseTime = vs ! 13, SpecialInstructions = vs ! 14\<rparr>)"

definition xml_Unmarshal_Request :: "Decoder \<Rightarrow> string \<Rightarrow> Request option" where
  "xml_Unmarshal_Request dec doc =
     (let s = (case strip_prefix xml_Header doc of None \<Rightarrow> doc | Some r \<Rightarrow> r) in
      case strip_prefix ''<Create><Details><DetailItem>'' s of
        None \<Rightarrow> None
      | Some s1 \<Rightarrow>
         (case elements dec Item_names s1 of
            None \<Rightarrow> None
          | Some (ivs, s2) \<Rightarrow>
             (case strip_prefix ''</DetailItem></Details>'' s2 of
                None \<Rightarrow> None
              | Some s3 \<Rightarrow>
                 (case elements dec Request_names s3 of
                    None \<Rightarrow> None
                  | Some (rvs, s4) \<Rightarrow>
                     if s4 \<noteq> ''</Create>'' then None
                     else (case Item_of dec ivs of
                             None \<Rightarrow> None
                           | Some i \<Rightarrow> Request_of i rvs)))))"

text \<open>
  A string survives the trip when its escaped form holds no opening angle bracket and
  unescapes to itself. A request is valid when all the text it is serialised to survives
  (its string fields and the printed \<open>Pieces\<close> and \<open>Weight\<close>) and the float parser reads
  the printed \<open>Weight\<close> back.
\<close>

definition survives :: "Env \<Rightarrow> Decoder \<Rightarrow> string \<Rightarrow> bool" where
  "survives env dec s \<longleftrightarrow>
     CHR ''<'' \<notin> set (EscapeText env s) \<and> UnescapeText dec (EscapeText env s) = s"

definition valid_Request :: "Env \<Rightarrow> Decoder \<Rightarrow> Request \<Rightarrow> bool" where
  "valid_Request env dec p \<longleftrightarrow>
     list_all (survives env dec)
       [DestinationZipcode (Item p), FormatUint (unat (Pieces (Item p))), Package (Item p),
        FormatFloat env (Weight (Item p)), DestinationCountry (Item p), Freezable (Item p),
        UserID p, Password p, Request.TestMode p, AccountNumber p, CompanyName p, Street p,
        Request.City p, Request.State p, Request.Zipcode p, ContactName p, ContactPhone p,
        PickupDate p, ReadyTime p, CloseTime p, SpecialInstructions p]
     \<and> ParseFloat dec (FormatFloat env (Weight (Item p))) = Some (Weight (Item p))"

subsection \<open>Sequences of calls\<close>

text \<open>
  The exported operations of the package, and a caller that performs a list of them in
  order on the package's state.
\<close>

datatype op =
    CallSetProductionMode bool
  | CallSetTimeout Duration
  | CallRequestPickup Request

fun perform :: "Env \<Rightarrow> op \<Rightarrow> World \<Rightarrow> World" where
  "perform env (CallSetProductionMode yes) w = SetProductionMode yes w"
| "perform env (CallSetTimeout seconds) w = SetTimeout seconds w"
| "perform env (CallRequestPickup p) w = world (RequestPickup env p w)"

fun perform_all :: "Env \<Rightarrow> op list \<Rightarrow> World \<Rightarrow> World" where
  "perform_all env [] w = w"
| "perform_all env (c # cs) w = perform_all env cs (perform env c w)"

text \<open>Which calls set the timeout, and which are requests.\<close>

fun changes_timeout :: "op \<Rightarrow> bool" where
  "changes_timeout (CallSetTimeout seconds) = True"
| "changes_timeout c = False"

fun is_request :: "op \<Rightarrow> bool" where
  "is_request (CallRequestPickup p) = True"
| "is_request c = False"

subsection \<open>Concrete inputs\<close>

text \<open>
  A request, and an environment whose carrier always gives the same answer: the result of
  the POST and what the decoder makes of the body.
\<close>

definition sample_Item :: Item where
  "sample_Item =
     \<lparr>DestinationZipcode = ''30301'', Pieces = 3, Package = ''SK'', Weight = 0,
      DestinationCountry = ''US'', Freezable = ''N''\<rparr>"

definition sample_Request :: Request where
  "sample_Request =
     \<lparr>XMLName = \<lparr>Space = [], Local = []\<rparr>, Item = sample_Item,
      UserID = ''user'', Password = ''secret'', Request.TestMode = ''Q'',
      AccountNumber = ''0123456'', CompanyName = ''ACME'', Street = ''1 Main St'',
      Request.City = ''Duluth'', Request.State = ''GA'', Request.Zipcode = ''30096'',
      ContactName = ''Shipping'', ContactPhone = ''5550100'',
      PickupDate = ''2017-03-01'', ReadyTime = ''09:00:00'', CloseTime = ''17:00:00'',
      SpecialInstructions = []\<rparr>"

definition sample_Env :: "(error + Response) \<Rightarrow> (ResponseData \<times> error option) \<Rightarrow> Env" where
  "sample_Env res parsed =
     \<lparr>http_Post = (\<lambda>c. res), xml_Unmarshal = (\<lambda>data v. parsed),
      EscapeText = (\<lambda>s. s), FormatFloat = (\<lambda>f. ''0'')\<rparr>"

definition accepted :: ResponseData where
  "accepted = ResponseData_zero\<lparr>ResponseData.TestMode := ''Y'', PickupNumber := ''A1234''\<rparr>"

definition rejected :: ResponseData where
  "rejected =
     ResponseData_zero\<lparr>Code := ''E01'', Element := ''Zipcode'', Fault := ''C'',
       Message := ''Invalid zipcode''\<rparr>"

definition answer :: "int \<Rightarrow> Response" where
  "answer status = \<lparr>StatusCode = status, Body = (''<Response/>'', None)\<rparr>"

text \<open>A response whose body breaks off while it is read.\<close>

definition broken_answer :: Response where
  "broken_answer = \<lparr>StatusCode = 200, Body = (''<Resp'', Some (Library ''unexpected EOF''))\<rparr>"

text \<open>A decoder for the sample environment, which escapes nothing and prints every float as 0.\<close>

definition sample_Decoder :: Decoder where
  "sample_Decoder = \<lparr>UnescapeText = (\<lambda>s. s), ParseFloat = (\<lambda>s. if s = ''0'' then Some 0 else None)\<rparr>"

section \<open>Properties\<close>

subsection \<open>What a call of RequestPickup leaves behind\<close>

lemma posted_append: "posted (xs @ ys) = posted xs @ posted ys"
  by (induction xs rule: posted.induct) simp_all

lemma RequestPickup_receiver:
  "receiver (RequestPickup env p w) = p\<lparr>Request.TestMode := testMode w\<rparr>"
  by (simp add: RequestPickup_def xml_Marshal_def Let_def split: sum.split prod.split option.split)

lemma RequestPickup_testMode: "testMode (world (RequestPickup env p w)) = testMode w"
  by (simp add: RequestPickup_def xml_Marshal_def Let_def emit_def split: sum.split prod.split option.split)

lemma RequestPickup_timeout: "timeout (world (RequestPickup env p w)) = timeout w"
  by (simp add: RequestPickup_def xml_Marshal_def Let_def emit_def split: sum.split prod.split option.split)

lemma RequestPickup_posted:
  "posted (events (world (RequestPickup env p w))) = posted (events w) @ [pickup_post env p w]"
  by (simp add: RequestPickup_def xml_Marshal_def Let_def emit_def posted_append pickup_post_def
        split: sum.split prod.split option.split)

text \<open>The branches of the method, one lemma each.\<close>

lemma RequestPickup_post_error:
  assumes "http_Post env (pickup_post env p w) = Inl e"
  shows "RequestPickup env p w =
     \<lparr>responseData = ResponseData_zero,
      err = Some (errors_Wrap e ''saia.RequestPickup - could not make post request''),
      receiver = p\<lparr>Request.TestMode := testMode w\<rparr>,
      world = emit [LogPrint (body (pickup_post env p w)), HttpPost (pickup_post env p w)] w\<rparr>"
  using assms by (simp add: RequestPickup_def xml_Marshal_def Let_def pickup_post_def)

lemma RequestPickup_read_error:
  assumes "http_Post env (pickup_post env p w) = Inr res" and "Body res = (data, Some e)"
  shows "RequestPickup env p w =
     \<lparr>responseData = ResponseData_zero,
      err = Some (errors_Wrap e ''saia.RequestPickup - could not read response 1''),
      receiver = p\<lparr>Request.TestMode := testMode w\<rparr>,
      world = emit [LogPrint (body (pickup_post env p w)), HttpPost (pickup_post env p w)] w\<rparr>"
  using assms by (simp add: RequestPickup_def xml_Marshal_def Let_def pickup_post_def)

lemma RequestPickup_parsed:
  assumes "http_Post env (pickup_post env p w) = Inr res" and "Body res = (data, None)"
    and "xml_Unmarshal env data ResponseData_zero = (r, None)"
  shows "responseData (RequestPickup env p w) = r"
    and "err (RequestPickup env p w) =
      (if Code r \<noteq> [] \<or> PickupNumber r = []
       then Some (errors_Wrap (errors_New ''saia.RequestPickup - pickup request failed'') (Message r))
       else None)"
  using assms by (simp_all add: RequestPickup_def xml_Marshal_def Let_def pickup_post_def)

lemma render_http_Post_update: "render (env\<lparr>http_Post := h\<rparr>) n = render env n"
  by (induction n) (simp_all cong: map_cong)

lemma xml_Marshal_http_Post_update: "xml_Marshal (env\<lparr>http_Post := h\<rparr>) p = xml_Marshal env p"
  by (simp add: xml_Marshal_def render_http_Post_update Request_node_def Item_fields_def)

lemma RequestPickup_ignores_StatusCode:
  "RequestPickup
     (env\<lparr>http_Post := \<lambda>c. case http_Post env c of Inl e \<Rightarrow> Inl e
                                 | Inr res \<Rightarrow> Inr (res\<lparr>StatusCode := status res\<rparr>)\<rparr>) p w
   = RequestPickup env p w"
proof -
  let ?c = "pickup_post env p w"
  show ?thesis
  proof (cases "http_Post env ?c")
    case (Inl e)
    then show ?thesis
      unfolding RequestPickup_def xml_Marshal_http_Post_update
      by (simp add: xml_Marshal_def Let_def pickup_post_def)
  next
    case (Inr res)
    then show ?thesis
      unfolding RequestPickup_def xml_Marshal_http_Post_update
      by (simp add: xml_Marshal_def Let_def pickup_post_def)
  qed
qed

lemma RequestPickup_TestMode_overwritten:
  "RequestPickup env (p\<lparr>Request.TestMode := v\<rparr>) w = RequestPickup env p w"
  by (simp add: RequestPickup_def)

subsection \<open>Calls in sequence, and the arithmetic of durations\<close>

lemma perform_keeps_production:
  "testMode w = ''N'' \<Longrightarrow> testMode (perform env c w) = ''N''"
  by (cases c) (simp_all add: SetProductionMode_def SetTimeout_def RequestPickup_testMode)

lemma perform_all_keeps_production:
  "testMode w = ''N'' \<Longrightarrow> testMode (perform_all env cs w) = ''N''"
  by (induction cs arbitrary: w) (simp_all add: perform_keeps_production)

lemma sint_seconds:
  assumes "- 9223372036 \<le> sint d" and "sint d \<le> 9223372036"
  shows "sint (d * Second :: Duration) = sint d * 1000000000"
proof -
  have "sint (d * Second) = signed_take_bit 63 (sint d * 1000000000)"
    by (simp add: Second_def sint_word_ariths)
  also have "\<dots> = sint d * 1000000000"
    using assms by (simp add: signed_take_bit_int_eq_self)
  finally show ?thesis .
qed

lemma perform_all_keeps_timeout:
  assumes "\<not> list_ex changes_timeout cs"
  shows "timeout (perform_all env cs w) = timeout w
    \<and> map Timeout (posted (events (perform_all env cs w))) =
        map Timeout (posted (events w)) @ replicate (length (filter is_request cs)) (timeout w)"
  using assms
proof (induction cs arbitrary: w)
  case Nil
  then show ?case by simp
next
  case (Cons c cs)
  then have rest: "\<not> list_ex changes_timeout cs" and c: "\<not> changes_timeout c"
    by simp_all
  note ih = Cons.IH [OF rest, of "perform env c w"]
  show ?case
  proof (cases c)
    case (CallSetProductionMode yes)
    then show ?thesis using ih by (simp add: SetProductionMode_def)
  next
    case (CallSetTimeout seconds)
    with c show ?thesis by simp
  next
    case (CallRequestPickup p)
    then show ?thesis
      using ih by (simp add: RequestPickup_timeout RequestPickup_posted pickup_post_def
          replicate_app_Cons_same)
  qed
qed

lemma RequestPickup_last_posted:
  "last (posted (events (world (RequestPickup env p w)))) = pickup_post env p w"
  by (simp add: RequestPickup_posted)

subsection \<open>The decoder on the documents of the serialiser\<close>

lemma strip_prefix_append: "strip_prefix xs (xs @ r) = Some r"
  by (induction xs) simp_all

lemma element_render:
  assumes "CHR ''<'' \<notin> set (EscapeText env v)"
  shows "element dec name (render env (field name v) @ rest) =
     Some (UnescapeText dec (EscapeText env v), rest)"
proof -
  let ?t = "EscapeText env v"
  let ?close = "''</'' @ name @ ''>''"
  have doc: "render env (field name v) @ rest = (''<'' @ name @ ''>'') @ (?t @ ?close @ rest)"
    by (simp add: field_def)
  have all: "\<forall>c\<in>set ?t. c \<noteq> CHR ''<''"
    using assms by auto
  have tk: "takeWhile (\<lambda>c. c \<noteq> CHR ''<'') (?t @ ?close @ rest) = ?t"
    using all by (simp add: takeWhile_append2)
  have dr: "dropWhile (\<lambda>c. c \<noteq> CHR ''<'') (?t @ ?close @ rest) = ?close @ rest"
    using all by (simp add: dropWhile_append2)
  show ?thesis
    unfolding element_def doc strip_prefix_append option.case tk dr
    by (simp only: strip_prefix_append option.case)
qed

lemma elements_render:
  assumes "list_all (\<lambda>v. CHR ''<'' \<notin> set (EscapeText env v)) (map snd kvs)"
  shows "elements dec (map fst kvs)
       (concat (map (\<lambda>(k, v). render env (field k v)) kvs) @ rest) =
     Some (map (\<lambda>(k, v). UnescapeText dec (EscapeText env v)) kvs, rest)"
  using assms
proof (induction kvs)
  case Nil
  then show ?case by simp
next
  case (Cons kv kvs)
  obtain k v where kv: "kv = (k, v)" by (cases kv)
  from Cons.prems have v: "CHR ''<'' \<notin> set (EscapeText env v)"
    and rest: "list_all (\<lambda>v. CHR ''<'' \<notin> set (EscapeText env v)) (map snd kvs)"
    by (simp_all add: kv)
  show ?case
    using element_render [OF v, of dec k] Cons.IH [OF rest]
    by (simp add: kv)
qed

lemma digit_of_char: "k < 10 \<Longrightarrow> of_char (''0123456789'' ! k) = 48 + int k"
proof -
  assume "k < 10"
  then have "k = 0 \<or> k = 1 \<or> k = 2 \<or> k = 3 \<or> k = 4 \<or> k = 5 \<or> k = 6 \<or> k = 7 \<or> k = 8 \<or> k = 9"
    by arith
  then show ?thesis by auto
qed

lemma digit_in_set: "k < 10 \<Longrightarrow> ''0123456789'' ! k \<in> set ''0123456789''"
  by (rule nth_mem) simp

lemma FormatUint_not_empty: "FormatUint n \<noteq> []"
  by (subst FormatUint.simps) simp

lemma FormatUint_digits: "list_all (\<lambda>c. c \<in> set ''0123456789'') (FormatUint n)"
proof (induction n rule: FormatUint.induct)
  case (1 n)
  show ?case
  proof (cases "n < 10")
    case True
    then show ?thesis
      using digit_in_set [of n] by (subst FormatUint.simps) simp
  next
    case False
    then show ?thesis
      using "1.IH" digit_in_set [of "n mod 10"] by (subst FormatUint.simps) simp
  qed
qed

lemma FormatUint_value:
  "foldl (\<lambda>a c. 10 * a + (of_char c - 48)) (0::int) (FormatUint n) = int n"
proof (induction n rule: FormatUint.induct)
  case (1 n)
  show ?case
  proof (cases "n < 10")
    case True
    then show ?thesis
      by (subst FormatUint.simps) (simp add: digit_of_char)
  next
    case False
    then show ?thesis
      using "1.IH" by (subst FormatUint.simps) (simp add: digit_of_char zdiv_int zmod_int)
  qed
qed

lemma ParseUint_FormatUint: "ParseUint (FormatUint (unat w)) = Some w"
proof -
  have "int (unat w) < 2 ^ 64"
    using unsigned_less [of w, where ?'a = int] by simp
  then show ?thesis
    using FormatUint_digits [of "unat w"] FormatUint_not_empty [of "unat w"]
    by (simp add: ParseUint_def FormatUint_value Let_def)
qed


lemma Item_fields_pairs:
  "Item_fields env i = map (\<lambda>(k, v). field k v)
     [(''DestinationZipcode'', DestinationZipcode i),
      (''Pieces'', FormatUint (unat (Pieces i))),
      (''Package'', Package i),
      (''Weight'', FormatFloat env (Weight i)),
      (''DestinationCountry'', DestinationCountry i),
      (''Freezable'', Freezable i)]"
  by (simp add: Item_fields_def)

lemma render_Request_node:
  "render env (Request_node env p) =
     ''<Create><Details><DetailItem>'' @
     (concat (map (\<lambda>(k, v). render env (field k v))
        [(''DestinationZipcode'', DestinationZipcode (Item p)),
         (''Pieces'', FormatUint (unat (Pieces (Item p)))),
         (''Package'', Package (Item p)),
         (''Weight'', FormatFloat env (Weight (Item p))),
         (''DestinationCountry'', DestinationCountry (Item p)),
         (''Freezable'', Freezable (Item p))]) @
      (''</DetailItem></Details>'' @
       (concat (map (\<lambda>(k, v). render env (field k v))
          [(''UserID'', UserID p), (''Password'', Password p),
           (''TestMode'', Request.TestMode p), (''AccountNumber'', AccountNumber p),
           (''CompanyName'', CompanyName p), (''Street'', Street p),
           (''City'', Request.City p), (''State'', Request.State p),
           (''Zipcode'', Request.Zipcode p), (''ContactName'', ContactName p),
           (''ContactPhone'', ContactPhone p), (''PickupDate'', PickupDate p),
           (''ReadyTime'', ReadyTime p), (''CloseTime'', CloseTime p),
           (''SpecialInstructions'', SpecialInstructions p)]) @
        ''</Create>'')))"
  by (simp add: Request_node_def Item_fields_def field_def)

lemma strip_prefix_Create:
  "strip_prefix ''<Create><Details><DetailItem>'' (''<Create><Details><DetailItem>'' @ r) = Some r"
  by (rule strip_prefix_append)

lemma strip_prefix_header_bare:
  "strip_prefix xml_Header (''<Create><Details><DetailItem>'' @ r) = None"
  by (simp add: xml_Header_def)

lemma survives_list:
  assumes "list_all (survives env dec) vs"
  shows "list_all (\<lambda>v. CHR ''<'' \<notin> set (EscapeText env v)) vs"
    and "map (\<lambda>v. UnescapeText dec (EscapeText env v)) vs = vs"
  using assms by (induction vs) (simp_all add: survives_def)

lemma Item_of_values:
  assumes "ParseFloat dec (FormatFloat env (Weight i)) = Some (Weight i)"
  shows "Item_of dec
      [DestinationZipcode i, FormatUint (unat (Pieces i)), Package i,
       FormatFloat env (Weight i), DestinationCountry i, Freezable i] = Some i"
  using assms by (simp add: Item_of_def ParseUint_FormatUint)

lemma Request_of_values:
  "Request_of (Item p)
      [UserID p, Password p, Request.TestMode p, AccountNumber p, CompanyName p, Street p,
       Request.City p, Request.State p, Request.Zipcode p, ContactName p, ContactPhone p,
       PickupDate p, ReadyTime p, CloseTime p, SpecialInstructions p] =
     Some (p\<lparr>XMLName := \<lparr>Space = [], Local = ''Create''\<rparr>\<rparr>)"
  by (simp add: Request_of_def)

lemma decode_document:
  assumes "valid_Request env dec p"
  shows "xml_Unmarshal_Request dec (xml_Header @ render env (Request_node env p)) =
      Some (p\<lparr>XMLName := \<lparr>Space = [], Local = ''Create''\<rparr>\<rparr>)"
    and "xml_Unmarshal_Request dec (render env (Request_node env p)) =
      Some (p\<lparr>XMLName := \<lparr>Space = [], Local = ''Create''\<rparr>\<rparr>)"
proof -
  let ?ip = "[(''DestinationZipcode'', DestinationZipcode (Item p)),
         (''Pieces'', FormatUint (unat (Pieces (Item p)))),
         (''Package'', Package (Item p)),
         (''Weight'', FormatFloat env (Weight (Item p))),
         (''DestinationCountry'', DestinationCountry (Item p)),
         (''Freezable'', Freezable (Item p))]"
  let ?rp = "[(''UserID'', UserID p), (''Password'', Password p),
           (''TestMode'', Request.TestMode p), (''AccountNumber'', AccountNumber p),
           (''CompanyName'', CompanyName p), (''Street'', Street p),
           (''City'', Request.City p), (''State'', Request.State p),
           (''Zipcode'', Request.Zipcode p), (''ContactName'', ContactName p),
           (''ContactPhone'', ContactPhone p), (''PickupDate'', PickupDate p),
           (''ReadyTime'', ReadyTime p), (''CloseTime'', CloseTime p),
           (''SpecialInstructions'', SpecialInstructions p)]"
  let ?r2 = "concat (map (\<lambda>(k, v). render env (field k v)) ?rp) @ ''</Create>''"
  let ?r1 = "concat (map (\<lambda>(k, v). render env (field k v)) ?ip) @
     (''</DetailItem></Details>'' @ ?r2)"
  from assms have all: "list_all (survives env dec) (map snd ?ip @ map snd ?rp)"
    and weight: "ParseFloat dec (FormatFloat env (Weight (Item p))) = Some (Weight (Item p))"
    by (simp_all add: valid_Request_def)
  from all have si: "list_all (survives env dec) (map snd ?ip)"
    and sr: "list_all (survives env dec) (map snd ?rp)"
    by simp_all
  have ei: "elements dec Item_names ?r1 =
      Some (map snd ?ip, ''</DetailItem></Details>'' @ ?r2)"
  proof -
    have a: "elements dec (map fst ?ip) ?r1 =
        Some (map (\<lambda>(k, v). UnescapeText dec (EscapeText env v)) ?ip,
          ''</DetailItem></Details>'' @ ?r2)"
      by (rule elements_render) (rule survives_list(1) [OF si])
    have b: "map (\<lambda>(k, v). UnescapeText dec (EscapeText env v)) ?ip = map snd ?ip"
      using survives_list(2) [OF si] by simp
    have c: "Item_names = map fst ?ip"
      by (simp add: Item_names_def)
    show ?thesis by (simp only: c a b)
  qed
  have er: "elements dec Request_names ?r2 = Some (map snd ?rp, ''</Create>'')"
  proof -
    have a: "elements dec (map fst ?rp) ?r2 =
        Some (map (\<lambda>(k, v). UnescapeText dec (EscapeText env v)) ?rp, ''</Create>'')"
      by (rule elements_render) (rule survives_list(1) [OF sr])
    have b: "map (\<lambda>(k, v). UnescapeText dec (EscapeText env v)) ?rp = map snd ?rp"
      using survives_list(2) [OF sr] by simp
    have c: "Request_names = map fst ?rp"
      by (simp add: Request_names_def)
    show ?thesis by (simp only: c a b)
  qed
  have doc: "render env (Request_node env p) = ''<Create><Details><DetailItem>'' @ ?r1"
    by (rule render_Request_node)
  have item: "Item_of dec (map snd ?ip) = Some (Item p)"
    using Item_of_values [OF weight] by simp
  have req: "Request_of (Item p) (map snd ?rp) =
      Some (p\<lparr>XMLName := \<lparr>Space = [], Local = ''Create''\<rparr>\<rparr>)"
    using Request_of_values [of p] by simp
  have close: "strip_prefix ''</DetailItem></Details>'' (''</DetailItem></Details>'' @ ?r2) = Some ?r2"
    by (rule strip_prefix_append)
  show "xml_Unmarshal_Request dec (xml_Header @ render env (Request_node env p)) =
      Some (p\<lparr>XMLName := \<lparr>Space = [], Local = ''Create''\<rparr>\<rparr>)"
    unfolding xml_Unmarshal_Request_def doc strip_prefix_append option.case Let_def
      strip_prefix_Create ei prod.case close er item req
    by simp
  show "xml_Unmarshal_Request dec (render env (Request_node env p)) =
      Some (p\<lparr>XMLName := \<lparr>Space = [], Local = ''Create''\<rparr>\<rparr>)"
    unfolding xml_Unmarshal_Request_def doc strip_prefix_header_bare option.case Let_def
      strip_prefix_Create ei prod.case close er item req
    by simp
qed

subsection \<open>Test mode and production mode\<close>

text \<open>
  Claim C1, as the code has it. The package has one URL, \<open>saiaURL\<close>, and every POST
  goes to it, whatever the mode. The mode is the package variable \<open>testMode\<close>: it is
  \<^verbatim>\<open>Y\<close> until \<open>SetProductionMode True\<close> makes it \<^verbatim>\<open>N\<close>, and the next \<open>RequestPickup\<close>
  sends it as the \<^verbatim>\<open>TestMode\<close> element of the document. So a call made before any
  configuration posts a document with test mode \<^verbatim>\<open>Y\<close>, and a call made after
  \<open>SetProductionMode True\<close> posts one with test mode \<^verbatim>\<open>N\<close>, both to \<open>saiaURL\<close>.
\<close>

theorem production_mode_sets_TestMode:
  "testMode initial = ''Y''
   \<and> SetProductionMode True w = w\<lparr>testMode := ''N''\<rparr>
   \<and> map url (posted (events (world (RequestPickup env p w)))) =
       map url (posted (events w)) @ [saiaURL]
   \<and> map body (posted (events (world (RequestPickup env p initial)))) =
       [xml_Header @ render env (Request_node env (p\<lparr>Request.TestMode := ''Y''\<rparr>))]
   \<and> map body (posted (events (world (RequestPickup env p (SetProductionMode True w))))) =
       map body (posted (events w)) @
         [xml_Header @ render env (Request_node env (p\<lparr>Request.TestMode := ''N''\<rparr>))]"
  by (simp add: RequestPickup_posted pickup_post_def initial_def SetProductionMode_def)

theorem production_mode_sets_TestMode_witness:
  "testMode initial = ''Y''
   \<and> testMode (SetProductionMode True initial) = ''N''
   \<and> map url (posted (events (world (RequestPickup (sample_Env (Inr (answer 200)) (accepted, None))
        sample_Request (SetProductionMode True initial))))) = [saiaURL]
   \<and> map body (posted (events (world (RequestPickup (sample_Env (Inr (answer 200)) (accepted, None))
        sample_Request (SetProductionMode True initial))))) =
       [xml_Header @ render (sample_Env (Inr (answer 200)) (accepted, None))
          (Request_node (sample_Env (Inr (answer 200)) (accepted, None))
             (sample_Request\<lparr>Request.TestMode := ''N''\<rparr>))]"
  using production_mode_sets_TestMode
      [of initial "sample_Env (Inr (answer 200)) (accepted, None)" sample_Request]
    production_mode_sets_TestMode
      [of "SetProductionMode True initial" "sample_Env (Inr (answer 200)) (accepted, None)"
          sample_Request]
  by (simp add: initial_def SetProductionMode_def)

text \<open>
  Claim C1, as stated, fails: the URL of the POST after \<open>SetProductionMode True\<close> is the
  URL of the POST in the initial state, the constant \<^verbatim>\<open>saiaURL\<close>; no production URL
  distinct from it exists.
\<close>

theorem production_url_counterexample:
  "map url (posted (events (world (RequestPickup (sample_Env (Inr (answer 200)) (accepted, None))
       sample_Request (SetProductionMode True initial))))) =
   map url (posted (events (world (RequestPickup (sample_Env (Inr (answer 200)) (accepted, None))
       sample_Request initial))))
   \<and> map url (posted (events (world (RequestPickup (sample_Env (Inr (answer 200)) (accepted, None))
       sample_Request initial)))) = [''http://www.saiasecure.com/webservice/pickup/xml.aspx'']"
  by (simp add: RequestPickup_posted pickup_post_def initial_def SetProductionMode_def saiaURL_def)

subsection \<open>Classification of a parsed response\<close>

text \<open>
  Claim C2. Whenever the POST returns a response, its body is read without error and the
  decoder accepts it, the error returned by \<open>RequestPickup\<close> is nil if and only if the
  parsed \<open>Code\<close> is empty and the parsed \<open>PickupNumber\<close> is not empty; the parsed value is
  returned as it is. The status code of the response plays no part: replacing it by any
  other, in every response the carrier may give, leaves the whole outcome of the call
  unchanged.
\<close>

theorem success_iff_no_code_and_confirmation:
  assumes "http_Post env (pickup_post env p w) = Inr res"
    and "Body res = (data, None)"
    and "xml_Unmarshal env data ResponseData_zero = (r, None)"
  shows "(err (RequestPickup env p w) = None \<longleftrightarrow> Code r = [] \<and> PickupNumber r \<noteq> [])
    \<and> responseData (RequestPickup env p w) = r
    \<and> RequestPickup
         (env\<lparr>http_Post := \<lambda>c. case http_Post env c of Inl e \<Rightarrow> Inl e
                                     | Inr res \<Rightarrow> Inr (res\<lparr>StatusCode := status res\<rparr>)\<rparr>) p w
       = RequestPickup env p w"
  using RequestPickup_parsed [OF assms] RequestPickup_ignores_StatusCode [where env = env and status = status and p = p and w = w]
  by simp

theorem success_iff_no_code_and_confirmation_witness:
  "err (RequestPickup (sample_Env (Inr (answer 500)) (accepted, None)) sample_Request initial) = None
   \<and> err (RequestPickup (sample_Env (Inr (answer 200)) (rejected, None)) sample_Request initial) \<noteq> None
   \<and> err (RequestPickup (sample_Env (Inr (answer 200)) (ResponseData_zero, None)) sample_Request initial) \<noteq> None"
  using success_iff_no_code_and_confirmation
      [of "sample_Env (Inr (answer 500)) (accepted, None)" sample_Request initial "answer 500"
          "''<Response/>''" accepted]
    success_iff_no_code_and_confirmation
      [of "sample_Env (Inr (answer 200)) (rejected, None)" sample_Request initial "answer 200"
          "''<Response/>''" rejected]
    success_iff_no_code_and_confirmation
      [of "sample_Env (Inr (answer 200)) (ResponseData_zero, None)" sample_Request initial "answer 200"
          "''<Response/>''" ResponseData_zero]
  by (simp add: sample_Env_def answer_def accepted_def rejected_def ResponseData_zero_def)

subsection \<open>The document that is sent\<close>

text \<open>
  Claim C3. \<open>RequestPickup\<close> stores the package's \<open>testMode\<close> in the \<open>TestMode\<close> field of
  its receiver before anything else, and the document it posts is the serialisation of the
  receiver so changed. What the caller had put in \<open>TestMode\<close> has no effect at all: two
  requests that differ in that field only give the same results, the same receiver after
  the call and the same world.
\<close>

theorem TestMode_overwritten_before_serialisation:
  "receiver (RequestPickup env p w) = p\<lparr>Request.TestMode := testMode w\<rparr>
   \<and> map body (posted (events (world (RequestPickup env p w)))) =
       map body (posted (events w)) @
         [xml_Header @ render env (Request_node env (p\<lparr>Request.TestMode := testMode w\<rparr>))]
   \<and> RequestPickup env (p\<lparr>Request.TestMode := v\<rparr>) w = RequestPickup env p w"
  by (simp add: RequestPickup_receiver RequestPickup_posted RequestPickup_TestMode_overwritten
        pickup_post_def)

theorem TestMode_overwritten_before_serialisation_witness:
  "Request.TestMode (receiver (RequestPickup (sample_Env (Inr (answer 200)) (accepted, None))
       sample_Request initial)) = ''Y''
   \<and> map body (posted (events (world (RequestPickup (sample_Env (Inr (answer 200)) (accepted, None))
       sample_Request initial)))) =
       [xml_Header @ render (sample_Env (Inr (answer 200)) (accepted, None))
          (Request_node (sample_Env (Inr (answer 200)) (accepted, None))
             (sample_Request\<lparr>Request.TestMode := ''Y''\<rparr>))]
   \<and> RequestPickup (sample_Env (Inr (answer 200)) (accepted, None))
        (sample_Request\<lparr>Request.TestMode := ''N''\<rparr>) initial
     = RequestPickup (sample_Env (Inr (answer 200)) (accepted, None)) sample_Request initial"
  using TestMode_overwritten_before_serialisation
      [of "sample_Env (Inr (answer 200)) (accepted, None)" sample_Request initial "''N''"]
  by (simp add: initial_def)

text \<open>
  Claim C4. When a parsed response is a business failure (its \<open>Code\<close> is not empty or its
  \<open>PickupNumber\<close> is empty), the error returned is not nil and its text is the carrier's
  \<open>Message\<close>, a colon and a space, then the generic description
  \<^verbatim>\<open>saia.RequestPickup - pickup request failed\<close>: both occur in the text.
\<close>

theorem business_failure_text:
  assumes "http_Post env (pickup_post env p w) = Inr res"
    and "Body res = (data, None)"
    and "xml_Unmarshal env data ResponseData_zero = (r, None)"
    and "Code r \<noteq> [] \<or> PickupNumber r = []"
  shows "\<exists>e. err (RequestPickup env p w) = Some e
    \<and> Error e = Message r @ '': '' @ ''saia.RequestPickup - pickup request failed''
    \<and> sublist ''saia.RequestPickup - pickup request failed'' (Error e)
    \<and> sublist (Message r) (Error e)"
proof -
  let ?e = "errors_Wrap (errors_New ''saia.RequestPickup - pickup request failed'') (Message r)"
  have "err (RequestPickup env p w) = Some ?e"
    using RequestPickup_parsed(2) [OF assms(1-3)] assms(4) by simp
  moreover have "Error ?e = Message r @ '': '' @ ''saia.RequestPickup - pickup request failed''"
    by simp
  moreover have "sublist ''saia.RequestPickup - pickup request failed'' (Error ?e)"
    unfolding sublist_def by (intro exI [of _ "Message r @ '': ''"] exI [of _ "[]"]) simp
  moreover have "sublist (Message r) (Error ?e)"
    unfolding sublist_def
    by (intro exI [of _ "[]"] exI [of _ "'': saia.RequestPickup - pickup request failed''"]) simp
  ultimately show ?thesis by blast
qed

theorem business_failure_text_witness:
  "\<exists>e. err (RequestPickup (sample_Env (Inr (answer 200)) (rejected, None)) sample_Request initial) = Some e
    \<and> Error e = ''Invalid zipcode: saia.RequestPickup - pickup request failed''
    \<and> sublist ''saia.RequestPickup - pickup request failed'' (Error e)
    \<and> sublist ''Invalid zipcode'' (Error e)"
  using business_failure_text
      [of "sample_Env (Inr (answer 200)) (rejected, None)" sample_Request initial "answer 200"
          "''<Response/>''" rejected]
  by (simp add: sample_Env_def answer_def rejected_def ResponseData_zero_def)

subsection \<open>Transport failures\<close>

text \<open>
  Claim C5. When the POST itself fails, and when the POST succeeds but reading the body of
  the response fails, \<open>RequestPickup\<close> returns the zero \<open>ResponseData\<close> and the library's
  error wrapped with the message of the call site. The call has then logged the document
  and issued exactly one POST, and nothing else: it did not try again.
\<close>

theorem transport_failure_returns_at_once:
  "(http_Post env (pickup_post env p w) = Inl e \<longrightarrow>
      responseData (RequestPickup env p w) = ResponseData_zero
      \<and> err (RequestPickup env p w) =
          Some (errors_Wrap e ''saia.RequestPickup - could not make post request'')
      \<and> events (world (RequestPickup env p w)) =
          events w @ [LogPrint (body (pickup_post env p w)), HttpPost (pickup_post env p w)])
   \<and> (http_Post env (pickup_post env p w) = Inr res \<and> Body res = (data, Some e) \<longrightarrow>
      responseData (RequestPickup env p w) = ResponseData_zero
      \<and> err (RequestPickup env p w) =
          Some (errors_Wrap e ''saia.RequestPickup - could not read response 1'')
      \<and> events (world (RequestPickup env p w)) =
          events w @ [LogPrint (body (pickup_post env p w)), HttpPost (pickup_post env p w)])"
proof (intro conjI impI)
  assume a: "http_Post env (pickup_post env p w) = Inl e"
  note r = RequestPickup_post_error [OF a]
  show "responseData (RequestPickup env p w) = ResponseData_zero"
    by (simp add: r)
  show "err (RequestPickup env p w) =
      Some (errors_Wrap e ''saia.RequestPickup - could not make post request'')"
    by (simp add: r)
  show "events (world (RequestPickup env p w)) =
      events w @ [LogPrint (body (pickup_post env p w)), HttpPost (pickup_post env p w)]"
    by (simp add: r emit_def)
next
  assume "http_Post env (pickup_post env p w) = Inr res \<and> Body res = (data, Some e)"
  then have a: "http_Post env (pickup_post env p w) = Inr res" and b: "Body res = (data, Some e)"
    by simp_all
  note r = RequestPickup_read_error [OF a b]
  show "responseData (RequestPickup env p w) = ResponseData_zero"
    by (simp add: r)
  show "err (RequestPickup env p w) =
      Some (errors_Wrap e ''saia.RequestPickup - could not read response 1'')"
    by (simp add: r)
  show "events (world (RequestPickup env p w)) =
      events w @ [LogPrint (body (pickup_post env p w)), HttpPost (pickup_post env p w)]"
    by (simp add: r emit_def)
qed

theorem transport_failure_returns_at_once_witness:
  "responseData (RequestPickup (sample_Env (Inl (Library ''timeout'')) (accepted, None))
       sample_Request initial) = ResponseData_zero
   \<and> err (RequestPickup (sample_Env (Inl (Library ''timeout'')) (accepted, None))
       sample_Request initial) =
      Some (errors_Wrap (Library ''timeout'') ''saia.RequestPickup - could not make post request'')
   \<and> length (posted (events (world (RequestPickup (sample_Env (Inl (Library ''timeout'')) (accepted, None))
       sample_Request initial)))) = 1
   \<and> responseData (RequestPickup (sample_Env (Inr broken_answer) (accepted, None))
       sample_Request initial) = ResponseData_zero
   \<and> err (RequestPickup (sample_Env (Inr broken_answer) (accepted, None))
       sample_Request initial) =
      Some (errors_Wrap (Library ''unexpected EOF'') ''saia.RequestPickup - could not read response 1'')
   \<and> length (posted (events (world (RequestPickup (sample_Env (Inr broken_answer) (accepted, None))
       sample_Request initial)))) = 1"
  using transport_failure_returns_at_once
      [of "sample_Env (Inl (Library ''timeout'')) (accepted, None)" sample_Request initial
          "Library ''timeout''"]
    transport_failure_returns_at_once
      [of "sample_Env (Inr broken_answer) (accepted, None)" sample_Request initial
          "Library ''unexpected EOF''" broken_answer "''<Resp''"]
  by (simp add: sample_Env_def broken_answer_def initial_def)

subsection \<open>The shape of the posted document\<close>

text \<open>
  Claim C6. Serialisation of a \<open>Request\<close> never fails, so every call of \<open>RequestPickup\<close>
  issues one POST. It goes to \<open>saiaURL\<close> with content type \<^verbatim>\<open>text/xml\<close>, and its body is
  the XML declaration \<open>xml_Header\<close> followed by one element \<^verbatim>\<open>Create\<close>, whose first child
  is \<^verbatim>\<open>Details\<close>, holding one \<^verbatim>\<open>DetailItem\<close> with the six fields of the item; the other
  fields of the request follow as children of \<^verbatim>\<open>Create\<close>.
\<close>

theorem posted_document:
  \<open>xml_Header = ''<?xml version="1.0" encoding="UTF-8"?>'' @ [CHR 0x0A]
   \<and> posted (events (world (RequestPickup env p w))) = posted (events w) @
     [\<lparr>url = saiaURL, contentType = ''text/xml'',
       body = xml_Header @
         ''<Create>'' @
           ''<Details><DetailItem>'' @
             ''<DestinationZipcode>'' @ EscapeText env (DestinationZipcode (Item p)) @ ''</DestinationZipcode>'' @
             ''<Pieces>'' @ EscapeText env (FormatUint (unat (Pieces (Item p)))) @ ''</Pieces>'' @
             ''<Package>'' @ EscapeText env (Package (Item p)) @ ''</Package>'' @
             ''<Weight>'' @ EscapeText env (FormatFloat env (Weight (Item p))) @ ''</Weight>'' @
             ''<DestinationCountry>'' @ EscapeText env (DestinationCountry (Item p)) @ ''</DestinationCountry>'' @
             ''<Freezable>'' @ EscapeText env (Freezable (Item p)) @ ''</Freezable>'' @
           ''</DetailItem></Details>'' @
           ''<UserID>'' @ EscapeText env (UserID p) @ ''</UserID>'' @
           ''<Password>'' @ EscapeText env (Password p) @ ''</Password>'' @
           ''<TestMode>'' @ EscapeText env (testMode w) @ ''</TestMode>'' @
           ''<AccountNumber>'' @ EscapeText env (AccountNumber p) @ ''</AccountNumber>'' @
           ''<CompanyName>'' @ EscapeText env (CompanyName p) @ ''</CompanyName>'' @
           ''<Street>'' @ EscapeText env (Street p) @ ''</Street>'' @
           ''<City>'' @ EscapeText env (Request.City p) @ ''</City>'' @
           ''<State>'' @ EscapeText env (Request.State p) @ ''</State>'' @
           ''<Zipcode>'' @ EscapeText env (Request.Zipcode p) @ ''</Zipcode>'' @
           ''<ContactName>'' @ EscapeText env (ContactName p) @ ''</ContactName>'' @
           ''<ContactPhone>'' @ EscapeText env (ContactPhone p) @ ''</ContactPhone>'' @
           ''<PickupDate>'' @ EscapeText env (PickupDate p) @ ''</PickupDate>'' @
           ''<ReadyTime>'' @ EscapeText env (ReadyTime p) @ ''</ReadyTime>'' @
           ''<CloseTime>'' @ EscapeText env (CloseTime p) @ ''</CloseTime>'' @
           ''<SpecialInstructions>'' @ EscapeText env (SpecialInstructions p) @ ''</SpecialInstructions>'' @
         ''</Create>'',
       Timeout = timeout w\<rparr>]\<close>
  by (simp add: RequestPickup_posted pickup_post_def Request_node_def Item_fields_def field_def
        xml_Header_def)

theorem posted_document_witness:
  "posted (events (world (RequestPickup (sample_Env (Inr (answer 200)) (accepted, None))
       sample_Request initial))) =
     [\<lparr>url = ''http://www.saiasecure.com/webservice/pickup/xml.aspx'', contentType = ''text/xml'',
       body = xml_Header @
         ''<Create><Details><DetailItem><DestinationZipcode>30301</DestinationZipcode><Pieces>3</Pieces><Package>SK</Package><Weight>0</Weight><DestinationCountry>US</DestinationCountry><Freezable>N</Freezable></DetailItem></Details><UserID>user</UserID><Password>secret</Password><TestMode>Y</TestMode><AccountNumber>0123456</AccountNumber><CompanyName>ACME</CompanyName><Street>1 Main St</Street><City>Duluth</City><State>GA</State><Zipcode>30096</Zipcode><ContactName>Shipping</ContactName><ContactPhone>5550100</ContactPhone><PickupDate>2017-03-01</PickupDate><ReadyTime>09:00:00</ReadyTime><CloseTime>17:00:00</CloseTime><SpecialInstructions></SpecialInstructions></Create>'',
       Timeout = 10000000000\<rparr>]"
  using posted_document [of "sample_Env (Inr (answer 200)) (accepted, None)" sample_Request initial]
  by (simp add: initial_def sample_Env_def sample_Request_def sample_Item_def saiaURL_def
        Second_def FormatUint.simps)

subsection \<open>Defaults and the timeout\<close>

text \<open>
  Claim C7, as the code has it. Before any configuration call the test mode is \<^verbatim>\<open>Y\<close> and
  the timeout is ten seconds. \<open>SetTimeout d\<close> has a single path, with no check of the sign
  or the size of \<open>d\<close>: it stores \<open>d * Second\<close>, the product of \<^verbatim>\<open>int64\<close>, and changes
  nothing else. Every request made afterwards, until \<open>SetTimeout\<close> is called again, gives
  that value to its HTTP client. Read as a signed number of nanoseconds, the stored value
  is the product of \<open>d\<close> and 1000000000 wrapped to 64 bits. For a non-positive \<open>d\<close> from
  \<open>- 9223372036\<close> on, the product fits, and the stored timeout is that same non-positive
  number of seconds.
\<close>

theorem defaults_and_SetTimeout:
  "testMode initial = ''Y''
   \<and> timeout initial = 10 * Second \<and> sint (timeout initial) = 10 * 1000000000
   \<and> SetTimeout d w = w\<lparr>timeout := d * Second\<rparr>
   \<and> map Timeout (posted (events (world (RequestPickup env p (SetTimeout d w))))) =
       map Timeout (posted (events w)) @ [d * Second]
   \<and> (\<not> list_ex changes_timeout cs \<longrightarrow>
        timeout (perform_all env cs (SetTimeout d w)) = d * Second
        \<and> map Timeout (posted (events (perform_all env cs (SetTimeout d w)))) =
            map Timeout (posted (events w)) @
              replicate (length (filter is_request cs)) (d * Second))
   \<and> sint (timeout (SetTimeout d w)) = signed_take_bit 63 (sint d * 1000000000)
   \<and> (- 9223372036 \<le> sint d \<and> sint d \<le> 0 \<longrightarrow>
        sint (timeout (SetTimeout d w)) = sint d * 1000000000
        \<and> sint (timeout (SetTimeout d w)) \<le> 0)"
proof (intro conjI impI)
  show "testMode initial = ''Y''" and "timeout initial = 10 * Second"
    by (simp_all add: initial_def)
  show "sint (timeout initial) = 10 * 1000000000"
    by (simp add: initial_def Second_def)
  show "SetTimeout d w = w\<lparr>timeout := d * Second\<rparr>"
    by (simp add: SetTimeout_def)
  show "map Timeout (posted (events (world (RequestPickup env p (SetTimeout d w))))) =
       map Timeout (posted (events w)) @ [d * Second]"
    by (simp add: RequestPickup_posted pickup_post_def SetTimeout_def)
  show "sint (timeout (SetTimeout d w)) = signed_take_bit 63 (sint d * 1000000000)"
    by (simp add: SetTimeout_def Second_def sint_word_ariths)
next
  assume a: "\<not> list_ex changes_timeout cs"
  note k = perform_all_keeps_timeout [OF a, of env "SetTimeout d w"]
  from k show "timeout (perform_all env cs (SetTimeout d w)) = d * Second"
    by (simp add: SetTimeout_def)
  from k show "map Timeout (posted (events (perform_all env cs (SetTimeout d w)))) =
      map Timeout (posted (events w)) @ replicate (length (filter is_request cs)) (d * Second)"
    by (simp add: SetTimeout_def)
next
  assume a: "- 9223372036 \<le> sint d \<and> sint d \<le> 0"
  then show s: "sint (timeout (SetTimeout d w)) = sint d * 1000000000"
    by (simp add: SetTimeout_def sint_seconds)
  from a show "sint (timeout (SetTimeout d w)) \<le> 0"
    unfolding s by simp
qed

theorem defaults_and_SetTimeout_witness:
  "testMode initial = ''Y'' \<and> sint (timeout initial) = 10000000000
   \<and> timeout (SetTimeout (- 3) initial) = - 3 * Second
   \<and> map Timeout (posted (events (world
        (RequestPickup (sample_Env (Inr (answer 200)) (accepted, None)) sample_Request
           (SetTimeout (- 3) initial))))) = [- 3 * Second]
   \<and> map Timeout (posted (events
        (perform_all (sample_Env (Inr (answer 200)) (accepted, None))
           [CallRequestPickup sample_Request, CallSetProductionMode True,
            CallRequestPickup sample_Request]
           (SetTimeout (- 3) initial)))) = [- 3 * Second, - 3 * Second]
   \<and> sint (timeout (SetTimeout (- 3) initial)) = - 3000000000
   \<and> timeout (SetTimeout 0 initial) = 0"
  using defaults_and_SetTimeout
      [of "- 3" initial "sample_Env (Inr (answer 200)) (accepted, None)" sample_Request
        "[CallRequestPickup sample_Request, CallSetProductionMode True,
          CallRequestPickup sample_Request]"]
    defaults_and_SetTimeout
      [of 0 initial "sample_Env (Inr (answer 200)) (accepted, None)" sample_Request "[]"]
  by (simp add: initial_def SetTimeout_def Second_def RequestPickup_posted pickup_post_def)

text \<open>
  Claim C7, as stated, fails at the non-positive argument \<open>- 9223372037\<close>: the product
  wraps, and the timeout stored is the positive 9223372036709551616 nanoseconds.
\<close>

theorem SetTimeout_wraps_counterexample:
  "sint (- 9223372037 :: Duration) = - 9223372037
   \<and> sint (timeout (SetTimeout (- 9223372037) initial)) = 9223372036709551616"
  by (simp add: SetTimeout_def Second_def)

subsection \<open>Production mode is permanent\<close>

text \<open>
  Claim C9. \<open>SetProductionMode False\<close> changes nothing. Once \<open>SetProductionMode True\<close>
  has been called, the package's test mode is \<^verbatim>\<open>N\<close> after any sequence of calls of
  \<open>SetProductionMode\<close>, \<open>SetTimeout\<close> and \<open>RequestPickup\<close>, and the request that follows
  is sent with test mode \<^verbatim>\<open>N\<close>.
\<close>

theorem production_mode_is_never_left:
  "SetProductionMode False w = w
   \<and> testMode (perform_all env cs (SetProductionMode True w)) = ''N''
   \<and> Request.TestMode
        (receiver (RequestPickup env p (perform_all env cs (SetProductionMode True w)))) = ''N''"
proof -
  have "testMode (SetProductionMode True w) = ''N''"
    by (simp add: SetProductionMode_def)
  then have "testMode (perform_all env cs (SetProductionMode True w)) = ''N''"
    by (rule perform_all_keeps_production)
  then show ?thesis
    by (simp add: RequestPickup_receiver SetProductionMode_def)
qed

theorem production_mode_is_never_left_witness:
  "SetProductionMode False initial = initial
   \<and> testMode (perform_all (sample_Env (Inr (answer 200)) (accepted, None))
        [CallSetProductionMode False, CallSetTimeout 5, CallRequestPickup sample_Request,
         CallSetProductionMode False]
        (SetProductionMode True initial)) = ''N''
   \<and> Request.TestMode (receiver (RequestPickup (sample_Env (Inr (answer 200)) (accepted, None))
        (sample_Request\<lparr>Request.TestMode := ''Y''\<rparr>)
        (perform_all (sample_Env (Inr (answer 200)) (accepted, None))
          [CallSetProductionMode False, CallSetTimeout 5, CallRequestPickup sample_Request,
           CallSetProductionMode False]
          (SetProductionMode True initial)))) = ''N''"
  using production_mode_is_never_left
      [of initial "sample_Env (Inr (answer 200)) (accepted, None)"
          "[CallSetProductionMode False, CallSetTimeout 5, CallRequestPickup sample_Request,
            CallSetProductionMode False]"
          "sample_Request\<lparr>Request.TestMode := ''Y''\<rparr>"]
  by simp

subsection \<open>SetTimeout scales its argument\<close>

text \<open>
  Claim C10. For every \<open>d\<close>, \<open>SetTimeout d\<close> sets the timeout to \<open>d * Second\<close> (the
  multiplication of \<^verbatim>\<open>int64\<close>) and leaves the rest alone. A caller who passes a duration
  of five seconds, \<open>5 * Second\<close>, gets a timeout of five thousand million seconds: the
  stored number of nanoseconds is 5000000000 times that of one second.
\<close>

theorem SetTimeout_multiplies_by_Second:
  "timeout (SetTimeout d w) = d * Second
   \<and> testMode (SetTimeout d w) = testMode w \<and> events (SetTimeout d w) = events w
   \<and> timeout (SetTimeout (5 * Second) w) = 5000000000 * Second
   \<and> sint (timeout (SetTimeout (5 * Second) w)) = 5000000000 * sint Second"
  by (simp add: SetTimeout_def Second_def)

theorem SetTimeout_multiplies_by_Second_witness:
  "timeout (SetTimeout 30 initial) = 30 * Second
   \<and> testMode (SetTimeout 30 initial) = ''Y'' \<and> events (SetTimeout 30 initial) = []
   \<and> timeout (SetTimeout (5 * Second) initial) = 5000000000 * Second
   \<and> sint (timeout (SetTimeout (5 * Second) initial)) = 5000000000000000000"
  using SetTimeout_multiplies_by_Second [of 30 initial]
    SetTimeout_multiplies_by_Second [of "5 * Second" initial]
  by (simp add: initial_def Second_def)

subsection \<open>Serialising a request and reading it back\<close>

text \<open>
  Claim C8, as the code has it. For every valid request, the document that the serialiser
  writes is read back as the same request but for \<open>XMLName\<close>, which is not serialised and
  comes back as the name of the element, \<^verbatim>\<open>Create\<close>. For the document that
  \<open>RequestPickup\<close> posts, the request read back has the fields of the caller's request
  but for \<open>XMLName\<close> and for \<open>TestMode\<close>, which holds the package's \<open>testMode\<close>.
\<close>

theorem round_trip_except_XMLName:
  "(valid_Request env dec q \<longrightarrow>
      (case xml_Marshal env q of
         Inl e \<Rightarrow> False
       | Inr doc \<Rightarrow>
           xml_Unmarshal_Request dec doc =
             Some (q\<lparr>XMLName := \<lparr>Space = [], Local = ''Create''\<rparr>\<rparr>)))
   \<and> (valid_Request env dec (p\<lparr>Request.TestMode := testMode w\<rparr>) \<longrightarrow>
      xml_Unmarshal_Request dec (body (last (posted (events (world (RequestPickup env p w)))))) =
        Some (p\<lparr>XMLName := \<lparr>Space = [], Local = ''Create''\<rparr>,
                Request.TestMode := testMode w\<rparr>))"
proof (intro conjI impI)
  assume "valid_Request env dec q"
  then show "case xml_Marshal env q of
         Inl e \<Rightarrow> False
       | Inr doc \<Rightarrow>
           xml_Unmarshal_Request dec doc =
             Some (q\<lparr>XMLName := \<lparr>Space = [], Local = ''Create''\<rparr>\<rparr>)"
    by (simp add: xml_Marshal_def decode_document(2))
next
  assume v: "valid_Request env dec (p\<lparr>Request.TestMode := testMode w\<rparr>)"
  have "body (last (posted (events (world (RequestPickup env p w))))) =
      xml_Header @ render env (Request_node env (p\<lparr>Request.TestMode := testMode w\<rparr>))"
    by (simp add: RequestPickup_last_posted pickup_post_def)
  then show "xml_Unmarshal_Request dec
       (body (last (posted (events (world (RequestPickup env p w)))))) =
      Some (p\<lparr>XMLName := \<lparr>Space = [], Local = ''Create''\<rparr>,
              Request.TestMode := testMode w\<rparr>)"
    using decode_document(1) [OF v] by simp
qed

theorem round_trip_except_XMLName_witness:
  "valid_Request (sample_Env (Inr (answer 200)) (accepted, None)) sample_Decoder sample_Request
   \<and> valid_Request (sample_Env (Inr (answer 200)) (accepted, None)) sample_Decoder
        (sample_Request\<lparr>Request.TestMode := ''Y''\<rparr>)
   \<and> (case xml_Marshal (sample_Env (Inr (answer 200)) (accepted, None)) sample_Request of
        Inl e \<Rightarrow> False
      | Inr doc \<Rightarrow>
          xml_Unmarshal_Request sample_Decoder doc =
            Some (sample_Request\<lparr>XMLName := \<lparr>Space = [], Local = ''Create''\<rparr>\<rparr>))
   \<and> xml_Unmarshal_Request sample_Decoder
      (body (last (posted (events (world
         (RequestPickup (sample_Env (Inr (answer 200)) (accepted, None)) sample_Request
            initial)))))) =
     Some (sample_Request\<lparr>XMLName := \<lparr>Space = [], Local = ''Create''\<rparr>,
             Request.TestMode := ''Y''\<rparr>)"
proof -
  have v: "valid_Request (sample_Env (Inr (answer 200)) (accepted, None)) sample_Decoder
      sample_Request"
    by (simp add: valid_Request_def survives_def sample_Env_def sample_Decoder_def
        sample_Request_def sample_Item_def FormatUint.simps)
  have v': "valid_Request (sample_Env (Inr (answer 200)) (accepted, None)) sample_Decoder
      (sample_Request\<lparr>Request.TestMode := testMode initial\<rparr>)"
    by (simp add: valid_Request_def survives_def sample_Env_def sample_Decoder_def
        sample_Request_def sample_Item_def initial_def FormatUint.simps)
  have y: "testMode initial = ''Y''"
    by (simp add: initial_def)
  show ?thesis
    using v v' round_trip_except_XMLName
      [where env = "sample_Env (Inr (answer 200)) (accepted, None)" and dec = sample_Decoder
         and q = sample_Request and p = sample_Request and w = initial]
    by (simp add: y)
qed

text \<open>
  Claim C8, as stated, fails on the field \<open>XMLName\<close>: the sample request is valid and
  has an empty \<open>XMLName\<close>, the request read back from the posted document has the name
  \<^verbatim>\<open>Create\<close>, and a request with another \<open>XMLName\<close> is posted as the very same document,
  so that no way of reading the document returns that field.
\<close>

theorem round_trip_counterexample:
  "valid_Request (sample_Env (Inr (answer 200)) (accepted, None)) sample_Decoder
      (sample_Request\<lparr>Request.TestMode := testMode initial\<rparr>)
   \<and> XMLName sample_Request = \<lparr>Space = [], Local = []\<rparr>
   \<and> map_option XMLName
        (xml_Unmarshal_Request sample_Decoder
          (body (last (posted (events (world
             (RequestPickup (sample_Env (Inr (answer 200)) (accepted, None)) sample_Request
                initial))))))) = Some \<lparr>Space = [], Local = ''Create''\<rparr>
   \<and> body (last (posted (events (world
        (RequestPickup (sample_Env (Inr (answer 200)) (accepted, None))
           (sample_Request\<lparr>XMLName := \<lparr>Space = [], Local = ''Pickup''\<rparr>\<rparr>) initial))))) =
     body (last (posted (events (world
        (RequestPickup (sample_Env (Inr (answer 200)) (accepted, None)) sample_Request
           initial)))))"
proof -
  have v: "valid_Request (sample_Env (Inr (answer 200)) (accepted, None)) sample_Decoder
      (sample_Request\<lparr>Request.TestMode := testMode initial\<rparr>)"
    by (simp add: valid_Request_def survives_def sample_Env_def sample_Decoder_def
        sample_Request_def sample_Item_def initial_def FormatUint.simps)
  have x: "XMLName sample_Request = \<lparr>Space = [], Local = []\<rparr>"
    by (simp add: sample_Request_def)
  have d: "map_option XMLName
        (xml_Unmarshal_Request sample_Decoder
          (body (last (posted (events (world
             (RequestPickup (sample_Env (Inr (answer 200)) (accepted, None)) sample_Request
                initial))))))) = Some \<lparr>Space = [], Local = ''Create''\<rparr>"
    using decode_document(1) [OF v]
    by (simp add: RequestPickup_last_posted pickup_post_def)
  have b: "body (last (posted (events (world
        (RequestPickup (sample_Env (Inr (answer 200)) (accepted, None))
           (sample_Request\<lparr>XMLName := \<lparr>Space = [], Local = ''Pickup''\<rparr>\<rparr>) initial))))) =
     body (last (posted (events (world
        (RequestPickup (sample_Env (Inr (answer 200)) (accepted, None)) sample_Request
           initial)))))"
    by (simp add: RequestPickup_last_posted pickup_post_def Request_node_def)
  from v x d b show ?thesis by blast
qed

end
